theory Spec2Isabelle
  imports Main "HOL-Library.Sublist" "HOL-Library.Char_ord" "HOL-Library.List_Lexorder"
    "HOL-Library.AList"
begin

section \<open>Common data\<close>

text \<open>
  Strings of the TypeScript source are modelled as \<^typ>\<open>string\<close>. Every operation the
  modelled functions apply to a string looks at ASCII characters only, so a string can be
  read as the list of its UTF-8 bytes.

  \<open>Language\<close> is the union type of \<open>types/index.ts\<close>.
\<close>

datatype Language = python | typescript | javascript | go | rust | bash | ruby

text \<open>
  The error classes that the modelled code throws. \<open>SecurityError\<close> is the class of
  \<open>types/index.ts\<close>, \<open>PathSecurityError\<close> the one of the path validator, \<open>Error\<close> the
  built-in class; each carries its message.
\<close>

datatype error = Error string | SecurityError string | PathSecurityError string

fun message :: "error \<Rightarrow> string" where
  "message (Error m) = m"
| "message (SecurityError m) = m"
| "message (PathSecurityError m) = m"


section \<open>String operations of JavaScript\<close>

text \<open>\<open>s.includes(t)\<close>: \<open>t\<close> occurs in \<open>s\<close> as a contiguous substring.\<close>

definition includes_str :: "string \<Rightarrow> string \<Rightarrow> bool" where
  "includes_str s t = list_ex (prefix t) (suffixes s)"

text \<open>\<open>s.split(c)\<close> for a one-character separator: the empty string splits into one empty piece.\<close>

fun split_on :: "char \<Rightarrow> string \<Rightarrow> string list" where
  "split_on c [] = [[]]"
| "split_on c (x # xs) =
     (if x = c then [] # split_on c xs
      else (case split_on c xs of [] \<Rightarrow> [[x]] | y # ys \<Rightarrow> (x # y) # ys))"

text \<open>\<open>xs.join(sep)\<close>.\<close>

fun join_with :: "string \<Rightarrow> string list \<Rightarrow> string" where
  "join_with sep [] = []"
| "join_with sep [x] = x"
| "join_with sep (x # y # ys) = x @ sep @ join_with sep (y # ys)"

section \<open>Regular expressions\<close>

text \<open>
  The regular expressions of the source use literals, the classes \<open>\s\<close>, \<open>\w\<close>, \<open>.\<close>,
  \<open>[...]\<close> and \<open>[^...]\<close>, \<open>*\<close> and \<open>+\<close> on a class, a negative lookahead on a class, an
  alternative of literals and \<open>^\<close> in front. \<open>test\<close> is \<open>RegExp.prototype.test\<close> for a
  regular expression without the global flag: some substring matches.
  The classes are modelled on ASCII: \<open>\s\<close> is space, tab, line feed, vertical tab, form feed
  and carriage return, and \<open>.\<close> is every character but line feed and carriage return (the
  Unicode spaces and line separators outside ASCII are not in the model).
\<close>

datatype cclass = Space | WordCh | AnyCh | OneOf string | NoneOf string

definition word_chars :: string where
  "word_chars = ''abcdefghijklmnopqrstuvwxyzABCDEFGHIJKLMNOPQRSTUVWXYZ0123456789_''"

fun in_class :: "cclass \<Rightarrow> char \<Rightarrow> bool" where
  "in_class Space c = (c \<in> set [CHR '' '', CHR 0x09, CHR 0x0A, CHR 0x0B, CHR 0x0C, CHR 0x0D])"
| "in_class WordCh c = (c \<in> set word_chars)"
| "in_class AnyCh c = (c \<noteq> CHR 0x0A \<and> c \<noteq> CHR 0x0D)"
| "in_class (OneOf s) c = (c \<in> set s)"
| "in_class (NoneOf s) c = (c \<notin> set s)"

datatype atom =
    Lit string            \<comment> \<open>a literal\<close>
  | LitI string           \<comment> \<open>a literal under the flag \<open>i\<close>\<close>
  | One cclass
  | Star cclass
  | Plus cclass
  | NotAhead cclass       \<comment> \<open>\<open>(?!c)\<close>\<close>
  | Alt "string list"     \<comment> \<open>\<open>(a|b)\<close>\<close>

datatype regex = Rx "atom list" | Anchored "atom list"

definition lower :: "char \<Rightarrow> char" where
  "lower c = (case map_of (zip ''ABCDEFGHIJKLMNOPQRSTUVWXYZ'' ''abcdefghijklmnopqrstuvwxyz'') c of
                Some l \<Rightarrow> l | None \<Rightarrow> c)"

text \<open>\<open>star_try k p s\<close>: after some number of characters of \<open>p\<close>, the rest satisfies \<open>k\<close>.\<close>

fun star_try :: "(string \<Rightarrow> bool) \<Rightarrow> (char \<Rightarrow> bool) \<Rightarrow> string \<Rightarrow> bool" where
  "star_try k p [] = k []"
| "star_try k p (c # cs) = (k (c # cs) \<or> (p c \<and> star_try k p cs))"

text \<open>One atom, followed by the continuation \<open>k\<close> on the rest of the input.\<close>

fun step :: "atom \<Rightarrow> (string \<Rightarrow> bool) \<Rightarrow> string \<Rightarrow> bool" where
  "step (Lit l) k s = (prefix l s \<and> k (drop (length l) s))"
| "step (LitI l) k s =
     (length l \<le> length s \<and> map lower (take (length l) s) = map lower l \<and> k (drop (length l) s))"
| "step (One c) k s = (case s of [] \<Rightarrow> False | x # xs \<Rightarrow> in_class c x \<and> k xs)"
| "step (Star c) k s = star_try k (in_class c) s"
| "step (Plus c) k s = (case s of [] \<Rightarrow> False | x # xs \<Rightarrow> in_class c x \<and> star_try k (in_class c) xs)"
| "step (NotAhead c) k s = ((case s of [] \<Rightarrow> True | x # xs \<Rightarrow> \<not> in_class c x) \<and> k s)"
| "step (Alt ls) k s = list_ex (\<lambda>l. prefix l s \<and> k (drop (length l) s)) ls"

fun match_here :: "atom list \<Rightarrow> string \<Rightarrow> bool" where
  "match_here [] s = True"
| "match_here (a # as) s = step a (match_here as) s"

fun test :: "regex \<Rightarrow> string \<Rightarrow> bool" where
  "test (Rx as) s = list_ex (match_here as) (suffixes s)"
| "test (Anchored as) s = match_here as s"

text \<open>\<open>pattern.source\<close>: the text of the regular expression between its slashes.\<close>

definition bs :: string where
  "bs = [CHR 0x5C]"

definition escape_lit :: "string \<Rightarrow> string" where
  "escape_lit l = concat (map (\<lambda>c. if c \<in> set ([CHR 0x5C] @ ''.(){}|/'') then bs @ [c] else [c]) l)"

fun class_source :: "cclass \<Rightarrow> string" where
  "class_source Space = bs @ ''s''"
| "class_source WordCh = bs @ ''w''"
| "class_source AnyCh = ''.''"
| "class_source (OneOf s) = ''['' @ s @ '']''"
| "class_source (NoneOf s) = ''[^'' @ s @ '']''"

fun atom_source :: "atom \<Rightarrow> string" where
  "atom_source (Lit l) = escape_lit l"
| "atom_source (LitI l) = escape_lit l"
| "atom_source (One c) = class_source c"
| "atom_source (Star c) = class_source c @ ''*''"
| "atom_source (Plus c) = class_source c @ ''+''"
| "atom_source (NotAhead c) = ''(?!'' @ class_source c @ '')''"
| "atom_source (Alt ls) = ''('' @ join_with ''|'' ls @ '')''"

fun source :: "regex \<Rightarrow> string" where
  "source (Rx as) = concat (map atom_source as)"
| "source (Anchored as) = ''^'' @ concat (map atom_source as)"

section \<open>Runtime adapters\<close>

datatype runtime =
  PythonRuntime | TypeScriptRuntime | JavaScriptRuntime | GoRuntime | RustRuntime | BashRuntime

definition quotes :: cclass where
  "quotes = OneOf [CHR 0x27, CHR 0x22]"

fun BLOCKLIST :: "runtime \<Rightarrow> regex list" where
  "BLOCKLIST PythonRuntime =
    [Rx [Lit ''import'', Plus Space, Lit ''os'', NotAhead WordCh],
     Rx [Lit ''from'', Plus Space, Lit ''os'', Plus Space, Lit ''import''],
     Rx [Lit ''import'', Plus Space, Lit ''subprocess''],
     Rx [Lit ''from'', Plus Space, Lit ''subprocess'', Plus Space, Lit ''import''],
     Rx [Lit ''import'', Plus Space, Lit ''sys''],
     Rx [Lit ''eval'', Star Space, Lit ''(''],
     Rx [Lit ''exec'', Star Space, Lit ''(''],
     Rx [Lit ''__import__'', Star Space, Lit ''(''],
     Rx [Lit ''compile'', Star Space, Lit ''(''],
     Rx [Lit ''open'', Star Space, Lit ''('', Star (NoneOf '')''), Lit '','', Star Space, One quotes, Lit ''w''],
     Rx [Lit ''open'', Star Space, Lit ''('', Star (NoneOf '')''), Lit '','', Star Space, One quotes, Lit ''a''],
     Rx [Lit ''.system'', Star Space, Lit ''(''],
     Rx [Lit ''.popen'', Star Space, Lit ''('']]"
| "BLOCKLIST GoRuntime =
    [Rx [Lit ''import'', Plus Space, Star AnyCh, Lit ''\"os/exec\"''],
     Rx [Lit ''import'', Plus Space, Star AnyCh, Lit ''\"syscall\"''],
     Rx [Lit ''import'', Plus Space, Star AnyCh, Lit ''\"unsafe\"''],
     Rx [Lit ''exec.Command''],
     Rx [Lit ''syscall.'']]"
| "BLOCKLIST TypeScriptRuntime =
    [Rx [Lit ''require'', Star Space, Lit ''('', Star Space, One quotes, Lit ''child_process'',
         One quotes, Star Space, Lit '')''],
     Rx [Lit ''require'', Star Space, Lit ''('', Star Space, One quotes, Lit ''fs'',
         One quotes, Star Space, Lit '')''],
     Rx [Lit ''import'', Plus Space, Star AnyCh, Plus Space, Lit ''from'', Plus Space,
         One quotes, Lit ''child_process'', One quotes],
     Rx [Lit ''import'', Plus Space, Star AnyCh, Plus Space, Lit ''from'', Plus Space,
         One quotes, Lit ''fs'', One quotes],
     Rx [Lit ''eval'', Star Space, Lit ''(''],
     Rx [Lit ''Function'', Star Space, Lit ''(''],
     Rx [Lit ''process.exit''],
     Rx [Lit ''process.kill'']]"
| "BLOCKLIST JavaScriptRuntime =
    [Rx [Lit ''require'', Star Space, Lit ''('', Star Space, One quotes, Lit ''child_process'',
         One quotes, Star Space, Lit '')''],
     Rx [Lit ''require'', Star Space, Lit ''('', Star Space, One quotes, Lit ''fs'',
         One quotes, Star Space, Lit '')''],
     Rx [Lit ''eval'', Star Space, Lit ''(''],
     Rx [Lit ''Function'', Star Space, Lit ''(''],
     Rx [Lit ''process.exit''],
     Rx [Lit ''process.kill'']]"
| "BLOCKLIST RustRuntime =
    [Rx [Lit ''use'', Plus Space, Lit ''std::process''],
     Rx [Lit ''use'', Plus Space, Lit ''std::os''],
     Rx [Lit ''Command::''],
     Rx [Lit ''unsafe'', Star Space, Lit ''{'']]"
| "BLOCKLIST BashRuntime =
    [Rx [Lit ''rm'', Plus Space, Lit ''-rf'', Plus Space, Lit ''/''],
     Rx [Lit ''dd'', Plus Space, Lit ''if=''],
     Rx [Lit '':(){'', Star AnyCh, Lit ''}:''],
     Rx [Lit ''mkfs.''],
     Rx [Lit ''>'', Star Space, Lit ''/dev/sd''],
     Rx [Lit ''curl'', Star AnyCh, Lit ''|'', Star Space, Alt [''sh'', ''bash'']],
     Rx [Lit ''wget'', Star AnyCh, Lit ''|'', Star Space, Alt [''sh'', ''bash'']]]"

text \<open>
  \<open>validateCode\<close> is the same loop in the six adapters: the first pattern of the
  adapter's \<open>BLOCKLIST\<close> that the code matches raises a \<open>SecurityError\<close>.
\<close>

fun first_dangerous :: "regex list \<Rightarrow> string \<Rightarrow> error + unit" where
  "first_dangerous [] code = Inr ()"
| "first_dangerous (p # ps) code =
     (if test p code then Inl (SecurityError (''Dangerous pattern detected: '' @ source p))
      else first_dangerous ps code)"

definition validateCode :: "runtime \<Rightarrow> string \<Rightarrow> error + unit" where
  "validateCode r code = first_dangerous (BLOCKLIST r) code"

text \<open>
  The container as the adapters see it. \<open>ExecOptions\<close> and \<open>ExecResult\<close> are the types of
  \<open>types/index.ts\<close> (the measured duration is left out). What the container answers to a
  call is a parameter of the model: \<open>container_api\<close> holds, for each call, the result or the
  error raised. A \<open>command\<close> is a call issued to the container.
\<close>

record ExecOptions =
  timeout :: "nat option"
  env :: "(string \<times> string) list option"
  stdin :: "string option"
  workingDir :: "string option"

record ExecResult =
  stdout :: string
  stderr :: string
  exitCode :: int

datatype command = Exec "string list" ExecOptions | PutFile string string | DeleteFile string

record container_api =
  exec_answer :: "string list \<Rightarrow> ExecOptions \<Rightarrow> error + ExecResult"
  putFile_answer :: "string \<Rightarrow> string \<Rightarrow> error option"
  deleteFile_answer :: "string \<Rightarrow> error option"

record ExecutionContext =
  ctx_timeout :: nat
  ctx_env :: "(string \<times> string) list"
  ctx_stdin :: "string option"
  ctx_cwd :: "string option"

text \<open>
  The options every adapter passes to \<open>container.exec\<close>; \<open>context.cwd || '/workspace'\<close>
  replaces an absent or empty \<open>cwd\<close>.
\<close>

definition cwd_or_workspace :: "ExecutionContext \<Rightarrow> string" where
  "cwd_or_workspace ctx =
     (case ctx_cwd ctx of None \<Rightarrow> ''/workspace'' | Some d \<Rightarrow> if d = [] then ''/workspace'' else d)"

definition run_options :: "ExecutionContext \<Rightarrow> ExecOptions" where
  "run_options ctx = \<lparr>timeout = Some (ctx_timeout ctx), env = Some (ctx_env ctx),
     stdin = ctx_stdin ctx, workingDir = Some (cwd_or_workspace ctx)\<rparr>"

text \<open>\<open>getTempFilePath(extension)\<close>; \<open>n\<close> stands for the time stamp and the random suffix.\<close>

definition getTempFilePath :: "string \<Rightarrow> string \<Rightarrow> string" where
  "getTempFilePath n extension = ''/workspace/.exec-'' @ n @ extension"

text \<open>
  Every adapter catches whatever its \<open>try\<close> block throws and throws
  \<open>new Error(`<Name> execution failed: ${error.message}`)\<close>.
\<close>

definition failed :: "string \<Rightarrow> error \<Rightarrow> error" where
  "failed name e = Error (name @ '' execution failed: '' @ message e)"

text \<open>
  \<open>execute\<close> of the Python, JavaScript and Bash adapters: validate, then one \<open>exec\<close>.
  The result is what \<open>execute\<close> returns or throws, with the calls issued to the container.
\<close>

definition execute_direct ::
  "runtime \<Rightarrow> string \<Rightarrow> string list \<Rightarrow> container_api \<Rightarrow> string \<Rightarrow> ExecutionContext
     \<Rightarrow> (error + ExecResult) \<times> command list" where
  "execute_direct r name argv c code ctx =
     (case validateCode r code of
        Inl e \<Rightarrow> (Inl (failed name e), [])
      | Inr _ \<Rightarrow>
          (case exec_answer c (argv @ [code]) (run_options ctx) of
             Inl e \<Rightarrow> (Inl (failed name e), [Exec (argv @ [code]) (run_options ctx)])
           | Inr res \<Rightarrow> (Inr res, [Exec (argv @ [code]) (run_options ctx)])))"

text \<open>
  \<open>execute\<close> of the TypeScript and Go adapters: validate, write the program to a temporary
  file, run it, delete the file (a failing delete is ignored). \<open>prog\<close> is the text written.
\<close>

definition execute_file ::
  "runtime \<Rightarrow> string \<Rightarrow> string list \<Rightarrow> string \<Rightarrow> container_api \<Rightarrow> string \<Rightarrow> string
     \<Rightarrow> ExecutionContext \<Rightarrow> (error + ExecResult) \<times> command list" where
  "execute_file r name argv tempFile c code prog ctx =
     (case validateCode r code of
        Inl e \<Rightarrow> (Inl (failed name e), [])
      | Inr _ \<Rightarrow>
          (case putFile_answer c tempFile prog of
             Some e \<Rightarrow> (Inl (failed name e), [PutFile tempFile prog])
           | None \<Rightarrow>
               (case exec_answer c (argv @ [tempFile]) (run_options ctx) of
                  Inl e \<Rightarrow> (Inl (failed name e),
                            [PutFile tempFile prog, Exec (argv @ [tempFile]) (run_options ctx)])
                | Inr res \<Rightarrow> (Inr res,
                            [PutFile tempFile prog, Exec (argv @ [tempFile]) (run_options ctx),
                             DeleteFile tempFile]))))"

text \<open>\<open>GoRuntime.wrapInMain\<close>.\<close>

definition go_package_decl :: regex where
  "go_package_decl = Anchored [Star Space, Lit ''package'', Plus Space, Plus WordCh]"

definition go_func_main :: regex where
  "go_func_main = Rx [Lit ''func'', Plus Space, Lit ''main'', Star Space, Lit ''('', Star Space, Lit '')'']"

definition wrapInMain :: "string \<Rightarrow> string" where
  "wrapInMain code =
     (if test go_package_decl code then code
      else if \<not> test go_func_main code then
        ''package main\<newline>\<newline>import \"fmt\"\<newline>\<newline>func main() {\<newline>''
        @ join_with ''\<newline>'' (map (\<lambda>line. ''  '' @ line) (split_on CHR 0x0A code))
        @ ''\<newline>}''
      else ''package main\<newline>\<newline>'' @ code)"

text \<open>\<open>RustRuntime.wrapInMain\<close>.\<close>

definition rust_fn_main :: regex where
  "rust_fn_main = Rx [Lit ''fn'', Plus Space, Lit ''main'', Star Space, Lit ''('', Star Space, Lit '')'']"

definition rust_wrapInMain :: "string \<Rightarrow> string" where
  "rust_wrapInMain code =
     (if test rust_fn_main code then code
      else ''fn main() {\<newline>''
        @ join_with ''\<newline>'' (map (\<lambda>line. ''    '' @ line) (split_on CHR 0x0A code))
        @ ''\<newline>}'')"

text \<open>
  \<open>RustRuntime.execute\<close>: validate, write, compile, and run the binary when the compiler
  exits with 0. \<open>context.timeout || 30000\<close> replaces a timeout of 0.
\<close>

definition compile_options :: "ExecutionContext \<Rightarrow> ExecOptions" where
  "compile_options ctx =
     \<lparr>timeout = Some (if ctx_timeout ctx = 0 then 30000 else ctx_timeout ctx), env = None,
      stdin = None, workingDir = Some (cwd_or_workspace ctx)\<rparr>"

definition execute_rust ::
  "string \<Rightarrow> string \<Rightarrow> container_api \<Rightarrow> string \<Rightarrow> ExecutionContext
     \<Rightarrow> (error + ExecResult) \<times> command list" where
  "execute_rust tempFile binaryFile c code ctx =
     (case validateCode RustRuntime code of
        Inl e \<Rightarrow> (Inl (failed ''Rust'' e), [])
      | Inr _ \<Rightarrow>
          (let put = PutFile tempFile (rust_wrapInMain code);
               comp = Exec [''rustc'', tempFile, ''-o'', binaryFile] (compile_options ctx);
               run = Exec [binaryFile] (run_options ctx)
           in case putFile_answer c tempFile (rust_wrapInMain code) of
                Some e \<Rightarrow> (Inl (failed ''Rust'' e), [put])
              | None \<Rightarrow>
                  (case exec_answer c [''rustc'', tempFile, ''-o'', binaryFile] (compile_options ctx) of
                     Inl e \<Rightarrow> (Inl (failed ''Rust'' e), [put, comp])
                   | Inr cres \<Rightarrow>
                       if exitCode cres \<noteq> 0 then
                         (Inr (cres\<lparr>stderr := ''Compilation failed:\<newline>'' @ stderr cres\<rparr>), [put, comp])
                       else
                         (case exec_answer c [binaryFile] (run_options ctx) of
                            Inl e \<Rightarrow> (Inl (failed ''Rust'' e), [put, comp, run])
                          | Inr res \<Rightarrow> (Inr res, [put, comp, run, DeleteFile tempFile,
                                                   DeleteFile binaryFile])))))"

text \<open>
  \<open>execute(code, context)\<close> of each adapter. \<open>n1\<close> and \<open>n2\<close> are the time stamps and random
  suffixes of the temporary file names. (\<open>PythonMLRuntime\<close> inherits \<open>execute\<close> and
  \<open>validateCode\<close> from \<open>PythonRuntime\<close>.)
\<close>

fun execute ::
  "runtime \<Rightarrow> string \<Rightarrow> string \<Rightarrow> container_api \<Rightarrow> string \<Rightarrow> ExecutionContext
     \<Rightarrow> (error + ExecResult) \<times> command list" where
  "execute PythonRuntime n1 n2 c code ctx =
     execute_direct PythonRuntime ''Python'' [''python'', ''-c''] c code ctx"
| "execute JavaScriptRuntime n1 n2 c code ctx =
     execute_direct JavaScriptRuntime ''JavaScript'' [''node'', ''-e''] c code ctx"
| "execute BashRuntime n1 n2 c code ctx =
     execute_direct BashRuntime ''Bash'' [''sh'', ''-c''] c code ctx"
| "execute TypeScriptRuntime n1 n2 c code ctx =
     execute_file TypeScriptRuntime ''TypeScript'' [''bun'', ''run''] (getTempFilePath n1 ''.ts'')
       c code code ctx"
| "execute GoRuntime n1 n2 c code ctx =
     execute_file GoRuntime ''Go'' [''go'', ''run''] (getTempFilePath n1 ''.go'')
       c code (wrapInMain code) ctx"
| "execute RustRuntime n1 n2 c code ctx =
     execute_rust (getTempFilePath n1 ''.rs'') (getTempFilePath n2 []) c code ctx"




section \<open>Path validator\<close>

definition WORKSPACE_ROOT :: string where
  "WORKSPACE_ROOT = ''/workspace''"

definition BLOCKED_PATHS :: "string list" where
  "BLOCKED_PATHS = [''/etc'', ''/proc'', ''/sys'', ''/dev'', ''/root'', ''/home'', ''/var'', ''/usr'',
     ''/bin'', ''/sbin'', ''/lib'', ''/lib64'', ''/boot'', ''/opt'', ''/run'', ''/srv'', ''/mnt'', ''/media'']"

text \<open>
  \<open>decodeURIComponent\<close>: every \<open>%XX\<close> is replaced by the byte \<open>XX\<close>; the call fails (a
  \<open>URIError\<close>, \<open>None\<close> here) when a \<open>%\<close> is not followed by two hexadecimal digits or when
  the decoded bytes above \<open>0x7F\<close> do not form well-formed UTF-8 sequences, each byte of a
  sequence being percent-encoded. \<open>lead_ranges\<close> gives, for the first byte of a sequence,
  the ranges of the bytes that must follow; \<open>decode_from\<close> carries the ranges still
  expected.
\<close>

definition hex_val :: "char \<Rightarrow> nat option" where
  "hex_val c = map_of (zip ''0123456789abcdefABCDEF''
                 [0, 1, 2, 3, 4, 5, 6, 7, 8, 9, 10, 11, 12, 13, 14, 15, 10, 11, 12, 13, 14, 15]) c"

definition lead_ranges :: "nat \<Rightarrow> (nat \<times> nat) list option" where
  "lead_ranges b =
     (if 0xC2 \<le> b \<and> b \<le> 0xDF then Some [(0x80, 0xBF)]
      else if b = 0xE0 then Some [(0xA0, 0xBF), (0x80, 0xBF)]
      else if b = 0xED then Some [(0x80, 0x9F), (0x80, 0xBF)]
      else if 0xE1 \<le> b \<and> b \<le> 0xEF then Some [(0x80, 0xBF), (0x80, 0xBF)]
      else if b = 0xF0 then Some [(0x90, 0xBF), (0x80, 0xBF), (0x80, 0xBF)]
      else if 0xF1 \<le> b \<and> b \<le> 0xF3 then Some [(0x80, 0xBF), (0x80, 0xBF), (0x80, 0xBF)]
      else if b = 0xF4 then Some [(0x80, 0x8F), (0x80, 0xBF), (0x80, 0xBF)]
      else None)"

fun decode_from :: "(nat \<times> nat) list \<Rightarrow> string \<Rightarrow> string option" where
  "decode_from pend [] = (if pend = [] then Some [] else None)"
| "decode_from pend (c # cs) =
     (if c = CHR ''%'' then
        (case cs of
           h1 # h2 # rest \<Rightarrow>
             (case (hex_val h1, hex_val h2) of
                (Some a, Some b) \<Rightarrow>
                  (case pend of
                     [] \<Rightarrow>
                       if 16 * a + b < 0x80
                       then map_option ((#) (char_of (16 * a + b))) (decode_from [] rest)
                       else (case lead_ranges (16 * a + b) of
                               None \<Rightarrow> None
                             | Some rs \<Rightarrow>
                                 map_option ((#) (char_of (16 * a + b))) (decode_from rs rest))
                   | (lo, hi) # ps \<Rightarrow>
                       if lo \<le> 16 * a + b \<and> 16 * a + b \<le> hi
                       then map_option ((#) (char_of (16 * a + b))) (decode_from ps rest)
                       else None)
              | _ \<Rightarrow> None)
         | _ \<Rightarrow> None)
      else if pend = [] then map_option ((#) c) (decode_from [] cs)
      else None)"

definition decodeURIComponent :: "string \<Rightarrow> string option" where
  "decodeURIComponent s = decode_from [] s"

text \<open>
  The loop of \<open>sanitizePath\<close> that decodes up to three times and stops when a round
  changes nothing; its \<open>catch\<close> falls back to the path as given.
\<close>

fun decode_loop :: "nat \<Rightarrow> string \<Rightarrow> string option" where
  "decode_loop 0 decoded = Some decoded"
| "decode_loop (Suc n) decoded =
     (case decodeURIComponent decoded of
        None \<Rightarrow> None
      | Some newDecoded \<Rightarrow> if newDecoded = decoded then Some decoded else decode_loop n newDecoded)"

definition decode_path :: "string \<Rightarrow> string" where
  "decode_path userPath = (case decode_loop 3 userPath of None \<Rightarrow> userPath | Some d \<Rightarrow> d)"

definition traversalPatterns :: "regex list" where
  "traversalPatterns =
     [Rx [Lit ''..''], Rx [Lit (''..'' @ bs)], Rx [LitI ''%2e%2e''], Rx [LitI ''%252e''], Rx [Lit ''..'']]"

text \<open>
  The functions of Node's \<open>path\<close> module (POSIX). \<open>normalizeString\<close> drops empty and \<open>.\<close>
  segments and resolves \<open>..\<close> against the segments before it.
\<close>

fun resolve_segments :: "bool \<Rightarrow> string list \<Rightarrow> string list \<Rightarrow> string list" where
  "resolve_segments allowAboveRoot res [] = rev res"
| "resolve_segments allowAboveRoot res (seg # segs) =
     (if seg = ''..'' then
        (case res of
           [] \<Rightarrow> resolve_segments allowAboveRoot (if allowAboveRoot then [''..''] else []) segs
         | lastSeg # below \<Rightarrow>
             if lastSeg = ''..'' then
               resolve_segments allowAboveRoot (if allowAboveRoot then ''..'' # res else res) segs
             else resolve_segments allowAboveRoot below segs)
      else resolve_segments allowAboveRoot (seg # res) segs)"

definition normalizeString :: "string \<Rightarrow> bool \<Rightarrow> string" where
  "normalizeString p allowAboveRoot =
     join_with ''/'' (resolve_segments allowAboveRoot []
       (filter (\<lambda>seg. seg \<noteq> [] \<and> seg \<noteq> ''.'') (split_on CHR ''/'' p)))"

definition path_normalize :: "string \<Rightarrow> string" where
  "path_normalize p =
     (if p = [] then ''.''
      else
        (let isAbsolute = (hd p = CHR ''/'');
             trailingSeparator = (last p = CHR ''/'');
             q = normalizeString p (\<not> isAbsolute)
         in if q = [] then (if isAbsolute then ''/'' else if trailingSeparator then ''./'' else ''.'')
            else (if isAbsolute then ''/'' else []) @ q @ (if trailingSeparator then ''/'' else [])))"

definition path_join :: "string list \<Rightarrow> string" where
  "path_join args =
     (case filter (\<lambda>a. a \<noteq> []) args of
        [] \<Rightarrow> ''.''
      | parts \<Rightarrow> path_normalize (join_with ''/'' parts))"

text \<open>
  \<open>path.resolve(p)\<close> with one argument; \<open>cwd\<close> is \<open>process.cwd()\<close>, an absolute path, which
  is read only when \<open>p\<close> is not absolute.
\<close>

definition path_resolve :: "string \<Rightarrow> string \<Rightarrow> string" where
  "path_resolve cwd p =
     (let resolvedPath =
        (if p = [] then cwd @ ''/''
         else if hd p = CHR ''/'' then p @ ''/''
         else cwd @ ''/'' @ p @ ''/'')
      in ''/'' @ normalizeString resolvedPath False)"

fun first_blocked :: "string list \<Rightarrow> string \<Rightarrow> string option" where
  "first_blocked [] resolved = None"
| "first_blocked (blocked # bl) resolved =
     (if resolved = blocked \<or> prefix (blocked @ ''/'') resolved then Some blocked
      else first_blocked bl resolved)"

definition sanitizePath :: "string \<Rightarrow> string \<Rightarrow> error + string" where
  "sanitizePath cwd userPath =
     (if CHR 0x00 \<in> set userPath then Inl (PathSecurityError ''Null byte detected in path'')
      else
        (let decoded = decode_path userPath
         in if list_ex (\<lambda>pattern. test pattern decoded) traversalPatterns
            then Inl (PathSecurityError ''Path traversal pattern detected'')
            else
              (let normalized =
                     (if prefix ''/'' decoded
                      then path_normalize (path_join [WORKSPACE_ROOT, dropWhile (\<lambda>c. c = CHR ''/'') decoded])
                      else path_normalize (path_join [WORKSPACE_ROOT, decoded]));
                   resolved = path_resolve cwd normalized
               in if resolved \<noteq> WORKSPACE_ROOT \<and> \<not> prefix (WORKSPACE_ROOT @ ''/'') resolved
                  then Inl (PathSecurityError
                              (''Path escapes workspace: resolved to \"'' @ resolved @ ''\"''))
                  else
                    (case first_blocked BLOCKED_PATHS resolved of
                       Some blocked \<Rightarrow>
                         Inl (PathSecurityError (''Access to '' @ blocked @ '' is prohibited''))
                     | None \<Rightarrow>
                         if list_ex (\<lambda>component. prefix ''..'' component \<or> component = ''.'')
                              (filter (\<lambda>x. x \<noteq> []) (split_on CHR ''/'' resolved))
                         then Inl (PathSecurityError ''Invalid path component detected'')
                         else Inr resolved))))"

text \<open>\<open>validatePathForOperation\<close>.\<close>

datatype file_operation = Read | Write | ListDir | Delete

definition validatePathForOperation :: "string \<Rightarrow> string \<Rightarrow> file_operation \<Rightarrow> error + string" where
  "validatePathForOperation cwd userPath operation =
     (case sanitizePath cwd userPath of
        Inl e \<Rightarrow> Inl e
      | Inr sanitized \<Rightarrow>
          if operation = Delete \<and> sanitized = WORKSPACE_ROOT
          then Inl (PathSecurityError ''Cannot delete workspace root'')
          else if operation = Write \<and> sanitized = WORKSPACE_ROOT
          then Inl (PathSecurityError ''Cannot write to workspace root directory'')
          else Inr sanitized)"

section \<open>Container.exec: \<open>docker/Container.ts\<close>\<close>

definition MAX_STDOUT_SIZE :: nat where
  "MAX_STDOUT_SIZE = 10 * 1024 * 1024"

definition MAX_STDERR_SIZE :: nat where
  "MAX_STDERR_SIZE = 5 * 1024 * 1024"

definition TRUNCATION_MESSAGE :: string where
  "TRUNCATION_MESSAGE = ''\<newline>\<newline>... [OUTPUT TRUNCATED - SIZE LIMIT EXCEEDED] ...\<newline>''"

text \<open>
  What the engine delivers for one exec: the demultiplexed chunks in the order of arrival,
  and how the stream finishes (its end, an error of starting or reading it, or the timer
  firing first).
\<close>

datatype chunk = StdoutChunk string | StderrChunk string

datatype stream_finish = StreamEnd | StreamError string | TimerFired

text \<open>The two \<open>write\<close> callbacks of \<open>demuxStream\<close>: each appends its chunk.\<close>

fun demux :: "chunk list \<Rightarrow> string \<times> string \<Rightarrow> string \<times> string" where
  "demux [] acc = acc"
| "demux (StdoutChunk c # cs) (out, err) = demux cs (out @ c, err)"
| "demux (StderrChunk c # cs) (out, err) = demux cs (out, err @ c)"

text \<open>\<open>executeWithTimeout\<close>: the promise resolves with the collected strings at the end
  of the stream, and rejects on a stream error or when the timer fires.\<close>

definition executeWithTimeout :: "chunk list \<Rightarrow> stream_finish \<Rightarrow> error + string \<times> string" where
  "executeWithTimeout chunks fin =
     (case fin of
        StreamEnd \<Rightarrow> Inr (demux chunks ([], []))
      | StreamError m \<Rightarrow> Inl (Error m)
      | TimerFired \<Rightarrow> Inl (Error ''Execution timeout''))"

text \<open>
  \<open>Container.exec\<close>: \<open>setup\<close> is the error, if any, of inspecting and starting the container
  and creating the exec instance; \<open>inspected\<close> is the answer of \<open>exec.inspect()\<close>, an error
  or the \<open>ExitCode\<close> (\<open>ExitCode || 0\<close>). An error whose message includes \<open>timeout\<close> becomes
  \<open>Execution timeout\<close>, any other one is wrapped.
\<close>

definition exec_failure :: "error \<Rightarrow> error" where
  "exec_failure e =
     (if includes_str (message e) ''timeout'' then Error ''Execution timeout''
      else Error (''Failed to execute command: '' @ message e))"

definition container_exec ::
  "string option \<Rightarrow> chunk list \<Rightarrow> stream_finish \<Rightarrow> string + int option
     \<Rightarrow> error + ExecResult" where
  "container_exec setup chunks fin inspected =
     (case setup of
        Some m \<Rightarrow> Inl (exec_failure (Error m))
      | None \<Rightarrow>
          (case executeWithTimeout chunks fin of
             Inl e \<Rightarrow> Inl (exec_failure e)
           | Inr (out, err) \<Rightarrow>
               (case inspected of
                  Inl m \<Rightarrow> Inl (exec_failure (Error m))
                | Inr code \<Rightarrow>
                    Inr \<lparr>stdout = out, stderr = err,
                         exitCode = (case code of None \<Rightarrow> 0 | Some c \<Rightarrow> c)\<rparr>)))"

section \<open>Package cache\<close>















section \<open>Container engine\<close>

text \<open>
  The container engine is outside the code: what it answers to a call is a parameter of the
  model. For a container id, each field gives the message of the error that the engine
  raises, or \<open>None\<close> when the call succeeds.
\<close>

record engine =
  engine_pause :: "string \<Rightarrow> string option"
  engine_unpause :: "string \<Rightarrow> string option"
  engine_stop :: "string \<Rightarrow> string option"
  engine_remove :: "string \<Rightarrow> string option"
  engine_exec :: "string \<Rightarrow> string list \<Rightarrow> string option"

datatype engine_call =
  Pause string | Unpause string | Stop string | Remove string | ExecIn string "string list"

text \<open>
  \<open>Container.pause\<close>, \<open>unpause\<close>, \<open>stop\<close> and \<open>remove\<close> of \<open>docker/Container.ts\<close>: each wraps the
  engine's error; \<open>stop\<close> ignores an error whose message says the container is already
  stopped or not running.
\<close>

definition container_pause :: "engine \<Rightarrow> string \<Rightarrow> error option" where
  "container_pause eng cid =
     map_option (\<lambda>m. Error (''Failed to pause container: '' @ m)) (engine_pause eng cid)"

definition container_unpause :: "engine \<Rightarrow> string \<Rightarrow> error option" where
  "container_unpause eng cid =
     map_option (\<lambda>m. Error (''Failed to unpause container: '' @ m)) (engine_unpause eng cid)"

definition container_stop :: "engine \<Rightarrow> string \<Rightarrow> error option" where
  "container_stop eng cid =
     (case engine_stop eng cid of
        None \<Rightarrow> None
      | Some m \<Rightarrow>
          if \<not> includes_str m ''already stopped'' \<and> \<not> includes_str m ''not running''
          then Some (Error (''Failed to stop container: '' @ m))
          else None)"

definition container_remove :: "engine \<Rightarrow> string \<Rightarrow> error option" where
  "container_remove eng cid =
     map_option (\<lambda>m. Error (''Failed to remove container: '' @ m)) (engine_remove eng cid)"

section \<open>Session manager\<close>

datatype SessionState = active | paused | stopped

record Session =
  s_id :: string
  s_name :: string
  s_language :: Language
  s_container :: string
  s_state :: SessionState
  s_createdAt :: nat
  s_lastUsedAt :: nat
  s_expiresAt :: "nat option"

text \<open>
  The two maps of \<open>SessionManager\<close>, in insertion order as a JavaScript \<open>Map\<close> keeps them.
  Times are milliseconds; \<open>now\<close> is the reading of the clock during a call.
\<close>

record SessionManager =
  sessions :: "(string \<times> Session) list"
  sessionsByName :: "(string \<times> string) list"

text \<open>
  The lookup of \<open>get(nameOrId)\<close>: by id first, then by name (an empty id is falsy). The
  result carries the key of \<open>sessions\<close> under which the session object is stored.
\<close>

definition lookup :: "SessionManager \<Rightarrow> string \<Rightarrow> (string \<times> Session) option" where
  "lookup m nameOrId =
     (case map_of (sessions m) nameOrId of
        Some s \<Rightarrow> Some (nameOrId, s)
      | None \<Rightarrow>
          (case map_of (sessionsByName m) nameOrId of
             None \<Rightarrow> None
           | Some i \<Rightarrow> if i = [] then None else map_option (Pair i) (map_of (sessions m) i)))"

text \<open>\<open>get\<close> refreshes \<open>lastUsedAt\<close> of the session object it finds.\<close>

definition get :: "SessionManager \<Rightarrow> nat \<Rightarrow> string \<Rightarrow> (string \<times> Session) option \<times> SessionManager" where
  "get m now nameOrId =
     (case lookup m nameOrId of
        None \<Rightarrow> (None, m)
      | Some (k, s) \<Rightarrow>
          (Some (k, s\<lparr>s_lastUsedAt := now\<rparr>),
           m\<lparr>sessions := AList.update k (s\<lparr>s_lastUsedAt := now\<rparr>) (sessions m)\<rparr>))"

text \<open>
  The operations return what the method returns or throws, the manager afterwards and
  the calls issued to the engine.
\<close>

type_synonym 'a outcome = "(error + 'a) \<times> SessionManager \<times> engine_call list"

definition pause :: "engine \<Rightarrow> SessionManager \<Rightarrow> nat \<Rightarrow> string \<Rightarrow> unit outcome" where
  "pause eng m now sessionId =
     (case get m now sessionId of
        (None, m') \<Rightarrow> (Inl (Error (''Session not found: '' @ sessionId)), m', [])
      | (Some (k, s), m') \<Rightarrow>
          if s_state s = paused then (Inr (), m', [])
          else
            (case container_pause eng (s_container s) of
               Some e \<Rightarrow> (Inl e, m', [Pause (s_container s)])
             | None \<Rightarrow>
                 (Inr (), m'\<lparr>sessions := AList.update k (s\<lparr>s_state := paused\<rparr>) (sessions m')\<rparr>,
                  [Pause (s_container s)])))"

definition resume :: "engine \<Rightarrow> SessionManager \<Rightarrow> nat \<Rightarrow> string \<Rightarrow> unit outcome" where
  "resume eng m now sessionId =
     (case get m now sessionId of
        (None, m') \<Rightarrow> (Inl (Error (''Session not found: '' @ sessionId)), m', [])
      | (Some (k, s), m') \<Rightarrow>
          if s_state s \<noteq> paused then (Inr (), m', [])
          else
            (case container_unpause eng (s_container s) of
               Some e \<Rightarrow> (Inl e, m', [Unpause (s_container s)])
             | None \<Rightarrow>
                 (Inr (),
                  m'\<lparr>sessions :=
                       AList.update k (s\<lparr>s_state := active, s_lastUsedAt := now\<rparr>) (sessions m')\<rparr>,
                  [Unpause (s_container s)])))"

definition destroy :: "engine \<Rightarrow> SessionManager \<Rightarrow> nat \<Rightarrow> string \<Rightarrow> unit outcome" where
  "destroy eng m now sessionId =
     (case get m now sessionId of
        (None, m') \<Rightarrow> (Inl (Error (''Session not found: '' @ sessionId)), m', [])
      | (Some (k, s), m') \<Rightarrow>
          (case container_stop eng (s_container s) of
             Some e \<Rightarrow> (Inl e, m', [Stop (s_container s)])
           | None \<Rightarrow>
               (case container_remove eng (s_container s) of
                  Some e \<Rightarrow> (Inl e, m', [Stop (s_container s), Remove (s_container s)])
                | None \<Rightarrow>
                    (Inr (),
                     m'\<lparr>sessions := AList.delete (s_id s) (sessions m'),
                        sessionsByName := AList.delete (s_name s) (sessionsByName m')\<rparr>,
                     [Stop (s_container s), Remove (s_container s)]))))"

text \<open>
  \<open>cleanup\<close>, the janitor: the ids of the sessions whose \<open>expiresAt\<close> has passed are
  collected; each one still in the map is destroyed, and a failing \<open>destroy\<close> is logged,
  not propagated.
\<close>

definition expired_ids :: "SessionManager \<Rightarrow> nat \<Rightarrow> string list" where
  "expired_ids m now =
     map (\<lambda>(k, s). s_id s)
       (filter (\<lambda>(k, s). case s_expiresAt s of None \<Rightarrow> False | Some t \<Rightarrow> t \<le> now) (sessions m))"

definition cleanup_one ::
  "engine \<Rightarrow> nat \<Rightarrow> string \<Rightarrow> SessionManager \<times> engine_call list \<Rightarrow> SessionManager \<times> engine_call list" where
  "cleanup_one eng now i acc =
     (case map_of (sessions (fst acc)) i of
        None \<Rightarrow> acc
      | Some s \<Rightarrow>
          (case destroy eng (fst acc) now i of (r, m', calls) \<Rightarrow> (m', snd acc @ calls)))"

definition cleanup :: "engine \<Rightarrow> SessionManager \<Rightarrow> nat \<Rightarrow> SessionManager \<times> engine_call list" where
  "cleanup eng m now = foldl (\<lambda>acc i. cleanup_one eng now i acc) (m, []) (expired_ids m now)"

definition session_state :: "SessionManager \<Rightarrow> string \<Rightarrow> SessionState option" where
  "session_state m nameOrId = map_option (\<lambda>(k, s). s_state s) (lookup m nameOrId)"

section \<open>Container pool\<close>

record PooledContainer =
  container :: string
  language :: Language
  createdAt :: nat
  lastUsedAt :: nat
  useCount :: nat
  healthy :: bool

record PoolConfig =
  minIdle :: nat
  maxActive :: nat

text \<open>
  The pool is the \<open>Map\<close> from container id to pooled entry, in insertion order;
  \<open>pool.set\<close> is \<open>AList.update\<close>, \<open>pool.delete\<close> is \<open>AList.delete\<close> and \<open>pool.size\<close> the length.
  A container is identified by its id.
\<close>

type_synonym pool = "(string \<times> PooledContainer) list"

text \<open>
  \<open>destroyContainer\<close>: stop, remove, and delete from the pool; an error of \<open>stop\<close> or
  \<open>remove\<close> is logged and leaves the pool as it is.
\<close>

definition destroyContainer :: "engine \<Rightarrow> pool \<Rightarrow> string \<Rightarrow> pool \<times> engine_call list" where
  "destroyContainer eng p cid =
     (case container_stop eng cid of
        Some e \<Rightarrow> (p, [Stop cid])
      | None \<Rightarrow>
          (case container_remove eng cid of
             Some e \<Rightarrow> (p, [Stop cid, Remove cid])
           | None \<Rightarrow> (AList.delete cid p, [Stop cid, Remove cid])))"

text \<open>
  The loop of \<open>evictOldest\<close>: the entry kept is replaced only by one with a strictly
  smaller \<open>lastUsedAt\<close>.
\<close>

fun oldest_of :: "PooledContainer option \<Rightarrow> PooledContainer list \<Rightarrow> PooledContainer option" where
  "oldest_of oldest [] = oldest"
| "oldest_of oldest (pooled # rest) =
     (case oldest of
        None \<Rightarrow> oldest_of (Some pooled) rest
      | Some x \<Rightarrow> oldest_of (if lastUsedAt pooled < lastUsedAt x then Some pooled else oldest) rest)"

definition evictOldest :: "engine \<Rightarrow> pool \<Rightarrow> pool \<times> engine_call list" where
  "evictOldest eng p =
     (case oldest_of None (map snd p) of
        None \<Rightarrow> (p, [])
      | Some x \<Rightarrow> destroyContainer eng p (container x))"

text \<open>
  \<open>cleanContainer\<close>: the workspace is emptied (an error of this \<open>exec\<close> is ignored) and
  recreated; an error of the second \<open>exec\<close> is thrown. The later revision of the file runs
  one longer script and a check instead; \<open>release\<close> depends only on whether the cleaner throws.
\<close>

definition rm_workspace :: "string list" where
  "rm_workspace = [''sh'', ''-c'', ''rm -rf /workspace/* /workspace/.*'']"

definition mkdir_workspace :: "string list" where
  "mkdir_workspace = [''mkdir'', ''-p'', ''/workspace'']"

definition cleanContainer :: "engine \<Rightarrow> string \<Rightarrow> error option \<times> engine_call list" where
  "cleanContainer eng cid =
     (map_option Error (engine_exec eng cid mkdir_workspace),
      [ExecIn cid rm_workspace, ExecIn cid mkdir_workspace])"

text \<open>
  \<open>release(container, language)\<close>: evict when the pool is full, clean, insert a fresh
  entry; when the cleaner throws, the released container is destroyed instead. The result
  is the pool afterwards and the calls issued to the engine, in order.
\<close>

definition release ::
  "engine \<Rightarrow> PoolConfig \<Rightarrow> nat \<Rightarrow> pool \<Rightarrow> string \<Rightarrow> Language \<Rightarrow> pool \<times> engine_call list" where
  "release eng config now p cid lang =
     (let (p1, calls1) = (if length p \<ge> maxActive config then evictOldest eng p else (p, []));
          (failure, calls2) = cleanContainer eng cid
      in case failure of
           None \<Rightarrow>
             (AList.update cid
                \<lparr>container = cid, language = lang, createdAt = now, lastUsedAt = now,
                 useCount = 0, healthy = True\<rparr> p1,
              calls1 @ calls2)
         | Some e \<Rightarrow>
             (case destroyContainer eng p1 cid of (p2, calls3) \<Rightarrow> (p2, calls1 @ calls2 @ calls3)))"

text \<open>An engine whose calls all succeed.\<close>

definition engine_ok :: engine where
  "engine_ok = \<lparr>engine_pause = (\<lambda>c. None), engine_unpause = (\<lambda>c. None), engine_stop = (\<lambda>c. None),
     engine_remove = (\<lambda>c. None), engine_exec = (\<lambda>c argv. None)\<rparr>"

section \<open>Audit log: \<open>security/AuditLogger.ts\<close>\<close>

datatype AuditEventType =
    EXECUTE_START | EXECUTE_END | EXECUTE_ERROR | EXECUTE_TIMEOUT | EXECUTE_BLOCKED
  | SESSION_CREATE | SESSION_DESTROY | SESSION_PAUSE | SESSION_RESUME
  | PACKAGE_INSTALL | PACKAGE_INSTALL_BLOCKED
  | FILE_READ | FILE_WRITE | FILE_DELETE
  | SECURITY_VIOLATION
  | CONTAINER_CREATE | CONTAINER_DESTROY | POOL_ACQUIRE | POOL_RELEASE

datatype AuditSeverity = INFO | WARN | ERROR | CRITICAL

text \<open>A value of the \<open>details\<close> map of an event.\<close>

datatype detail = DStr string | DNum int | DBool bool | DList "string list"

record AuditEvent =
  timestamp :: string
  eventId :: string
  eventType :: AuditEventType
  severity :: AuditSeverity
  ev_language :: "Language option"
  sessionId :: "string option"
  containerId :: "string option"
  details :: "(string \<times> detail) list"
  ev_duration :: "nat option"
  ev_success :: bool
  errorMessage :: "string option"

text \<open>The optional argument \<open>options\<close> of \<open>AuditLogger.log\<close>; an absent field is \<open>None\<close>.\<close>

record LogOptions =
  opt_language :: "Language option"
  opt_sessionId :: "string option"
  opt_containerId :: "string option"
  opt_severity :: "AuditSeverity option"
  opt_success :: "bool option"
  opt_duration :: "nat option"
  opt_errorMessage :: "string option"

definition no_options :: LogOptions where
  "no_options = \<lparr>opt_language = None, opt_sessionId = None, opt_containerId = None,
     opt_severity = None, opt_success = None, opt_duration = None, opt_errorMessage = None\<rparr>"

text \<open>\<open>inferSeverity(eventType, success?)\<close>: the four tests in the order of the source.\<close>

definition inferSeverity :: "AuditEventType \<Rightarrow> bool option \<Rightarrow> AuditSeverity" where
  "inferSeverity et succ =
     (if et = SECURITY_VIOLATION then CRITICAL
      else if et = EXECUTE_BLOCKED \<or> et = PACKAGE_INSTALL_BLOCKED then WARN
      else if et = EXECUTE_ERROR \<or> et = EXECUTE_TIMEOUT then ERROR
      else if succ = Some False then ERROR
      else INFO)"

text \<open>
  The event that \<open>log(eventType, details, options)\<close> builds and returns. The clock reading
  \<open>ts\<close> and the generated id \<open>eid\<close> are parameters. \<open>options.severity || inferSeverity(..)\<close>
  takes the given severity when there is one (every severity is a non-empty string), and
  \<open>options.success ?? true\<close> defaults to true.
\<close>

definition log_event ::
  "string \<Rightarrow> string \<Rightarrow> AuditEventType \<Rightarrow> (string \<times> detail) list \<Rightarrow> LogOptions \<Rightarrow> AuditEvent" where
  "log_event ts eid et det opts =
     \<lparr>timestamp = ts, eventId = eid, eventType = et,
      severity = (case opt_severity opts of Some s \<Rightarrow> s
                  | None \<Rightarrow> inferSeverity et (opt_success opts)),
      ev_language = opt_language opts, sessionId = opt_sessionId opts,
      containerId = opt_containerId opts, details = det, ev_duration = opt_duration opts,
      ev_success = (case opt_success opts of Some b \<Rightarrow> b | None \<Rightarrow> True),
      errorMessage = opt_errorMessage opts\<rparr>"

text \<open>
  The in-memory ring of \<open>log\<close>: the event is pushed and, when the array is longer than
  \<open>maxInMemoryEvents\<close>, the oldest one is shifted out.
\<close>

definition maxInMemoryEvents :: nat where
  "maxInMemoryEvents = 1000"

definition log_store :: "AuditEvent list \<Rightarrow> AuditEvent \<Rightarrow> AuditEvent list" where
  "log_store events e =
     (let events' = events @ [e]
      in if length events' > maxInMemoryEvents then tl events' else events')"

text \<open>\<open>logExecuteEnd\<close>: an \<open>EXECUTE_END\<close> event with \<open>success: exitCode === 0\<close> and no severity.\<close>

definition logExecuteEnd ::
  "string \<Rightarrow> string \<Rightarrow> Language \<Rightarrow> string \<Rightarrow> nat \<Rightarrow> int \<Rightarrow> string option \<Rightarrow> string option
     \<Rightarrow> AuditEvent" where
  "logExecuteEnd ts eid lang codeHash dur code sid cid =
     log_event ts eid EXECUTE_END [(''codeHash'', DStr codeHash), (''exitCode'', DNum code)]
       (no_options\<lparr>opt_language := Some lang, opt_sessionId := sid, opt_containerId := cid,
          opt_duration := Some dur, opt_success := Some (code = 0)\<rparr>)"

text \<open>A manager with one active session, \<open>work\<close>, used to run the model.\<close>

definition demo_session :: Session where
  "demo_session = \<lparr>s_id = ''s-1'', s_name = ''work'', s_language = python, s_container = ''c-1'',
     s_state = active, s_createdAt = 1000, s_lastUsedAt = 1000, s_expiresAt = None\<rparr>"

definition demo_manager :: SessionManager where
  "demo_manager = \<lparr>sessions = [(''s-1'', demo_session)], sessionsByName = [(''work'', ''s-1'')]\<rparr>"



definition fresh_entry :: "string \<Rightarrow> Language \<Rightarrow> nat \<Rightarrow> PooledContainer" where
  "fresh_entry cid lang now =
     \<lparr>container = cid, language = lang, createdAt = now, lastUsedAt = now, useCount = 0, healthy = True\<rparr>"


section \<open>Properties\<close>

subsection \<open>Auxiliary facts\<close>



lemma lookup_update:
  assumes "lookup m k = Some (i, s)"
  shows "lookup (m\<lparr>sessions := AList.update i s' (sessions m)\<rparr>) k = Some (i, s')"
  using assms
  by (auto simp: lookup_def update_conv' split: option.splits if_splits)

lemma get_found:
  assumes "lookup m k = Some (i, s)"
  shows "get m now k = (Some (i, s\<lparr>s_lastUsedAt := now\<rparr>),
           m\<lparr>sessions := AList.update i (s\<lparr>s_lastUsedAt := now\<rparr>) (sessions m)\<rparr>)"
  using assms by (simp add: get_def)



lemma pause_paused:
  assumes "lookup m k = Some (i, s)" "s_state s = paused"
  shows "\<exists>m'. pause eng m now k = (Inr (), m', []) \<and> session_state m' k = Some paused"
  using assms lookup_update[OF assms(1), of "s\<lparr>s_lastUsedAt := now\<rparr>"]
  by (simp add: pause_def get_found session_state_def)

lemma resume_not_paused:
  assumes "lookup m k = Some (i, s)" "s_state s \<noteq> paused"
  shows "\<exists>m'. resume eng m now k = (Inr (), m', []) \<and> session_state m' k = Some (s_state s)"
  using assms lookup_update[OF assms(1), of "s\<lparr>s_lastUsedAt := now\<rparr>"]
  by (simp add: resume_def get_found session_state_def)

lemma pause_ok_state:
  assumes "lookup m k = Some (i, s)" "pause eng m now k = (Inr (), m1, calls)"
  shows "\<exists>s1. lookup m1 k = Some (i, s1) \<and> s_state s1 = paused"
proof -
  let ?s = "s\<lparr>s_lastUsedAt := now\<rparr>"
  let ?m = "m\<lparr>sessions := AList.update i ?s (sessions m)\<rparr>"
  have l1: "lookup ?m k = Some (i, ?s)" by (rule lookup_update[OF assms(1)])
  show ?thesis
  proof (cases "s_state s = paused")
    case True
    with assms l1 show ?thesis by (auto simp: pause_def get_found)
  next
    case False
    with assms have "m1 = ?m\<lparr>sessions := AList.update i (?s\<lparr>s_state := paused\<rparr>) (sessions ?m)\<rparr>"
      by (auto simp: pause_def get_found split: option.splits)
    with lookup_update[OF l1, of "?s\<lparr>s_state := paused\<rparr>"] show ?thesis by auto
  qed
qed

lemma resume_ok_state:
  assumes "lookup m k = Some (i, s)" "resume eng m now k = (Inr (), m1, calls)" "s_state s = paused"
  shows "session_state m1 k = Some active"
proof -
  let ?s = "s\<lparr>s_lastUsedAt := now\<rparr>"
  let ?m = "m\<lparr>sessions := AList.update i ?s (sessions m)\<rparr>"
  have l1: "lookup ?m k = Some (i, ?s)" by (rule lookup_update[OF assms(1)])
  from assms have "m1 = ?m\<lparr>sessions := AList.update i (?s\<lparr>s_state := active, s_lastUsedAt := now\<rparr>) (sessions ?m)\<rparr>"
    by (auto simp: resume_def get_found split: option.splits)
  with lookup_update[OF l1, of "?s\<lparr>s_state := active, s_lastUsedAt := now\<rparr>"] show ?thesis
    by (auto simp: session_state_def)
qed




subsection \<open>Path sanitizer\<close>








lemma decode_path_once: "decode_path ''%2e%2e/x'' = ''../x''"
  by code_simp

lemma decode_path_twice: "decode_path ''%252e%252e/x'' = ''../x''"
  by code_simp

lemma sanitizePath_dotdot:
  "sanitizePath cwd ''..'' = Inl (PathSecurityError ''Path traversal pattern detected'')"
  by (simp add: sanitizePath_def Let_def decode_path_def decodeURIComponent_def
        traversalPatterns_def numeral_3_eq_3)

lemma sanitizePath_encoded:
  "sanitizePath cwd ''%2e%2e/x'' = Inl (PathSecurityError ''Path traversal pattern detected'')"
  unfolding sanitizePath_def Let_def decode_path_once
  by (simp add: traversalPatterns_def)

lemma sanitizePath_double_encoded:
  "sanitizePath cwd ''%252e%252e/x'' = Inl (PathSecurityError ''Path traversal pattern detected'')"
  unfolding sanitizePath_def Let_def decode_path_twice
  by (simp add: traversalPatterns_def)

lemma decode_path_etc: "decode_path ''/etc/passwd'' = ''/etc/passwd''"
  by code_simp

lemma join_etc:
  "path_normalize (path_join [''/workspace'', ''etc/passwd'']) = ''/workspace/etc/passwd''"
  by code_simp

lemma resolve_etc: "path_resolve cwd ''/workspace/etc/passwd'' = ''/workspace/etc/passwd''"
  by (simp add: path_resolve_def normalizeString_def)

lemma not_blocked_etc: "first_blocked BLOCKED_PATHS ''/workspace/etc/passwd'' = None"
  by code_simp

lemma sanitizePath_etc_passwd:
  "sanitizePath cwd ''/etc/passwd'' = Inr ''/workspace/etc/passwd''"
  unfolding sanitizePath_def Let_def decode_path_etc
  by (simp add: traversalPatterns_def bs_def lower_def join_etc resolve_etc not_blocked_etc
        WORKSPACE_ROOT_def)

text \<open>
  C1, as stated: each of \<open>".."\<close>, \<open>"/etc/passwd"\<close>, \<open>"%2e%2e/x"\<close> and \<open>"%252e%252e/x"\<close> makes
  \<open>sanitizePath\<close> raise. For \<open>"/etc/passwd"\<close> the source strips the leading slash
  (\<open>If path starts with /, treat it as relative to workspace anyway\<close>) and returns a path
  inside the workspace, so the claim as stated is false at this input.
\<close>

theorem C1_etc_passwd_counterexample:
  "sanitizePath ''/'' ''/etc/passwd'' = Inr ''/workspace/etc/passwd''"
  by (rule sanitizePath_etc_passwd)

text \<open>
  C1, amended: \<open>sanitizePath\<close> raises \<open>PathSecurityError\<close> for \<open>".."\<close>, \<open>"%2e%2e/x"\<close> and
  \<open>"%252e%252e/x"\<close>, and returns \<open>"/workspace/etc/passwd"\<close> for \<open>"/etc/passwd"\<close>, whatever the
  working directory of the process.
\<close>

theorem C1_sanitizePath_boundary:
  "sanitizePath cwd ''..'' = Inl (PathSecurityError ''Path traversal pattern detected'') \<and>
   sanitizePath cwd ''%2e%2e/x'' = Inl (PathSecurityError ''Path traversal pattern detected'') \<and>
   sanitizePath cwd ''%252e%252e/x'' = Inl (PathSecurityError ''Path traversal pattern detected'') \<and>
   sanitizePath cwd ''/etc/passwd'' = Inr ''/workspace/etc/passwd''"
  by (simp add: sanitizePath_dotdot sanitizePath_encoded sanitizePath_double_encoded
        sanitizePath_etc_passwd)



subsection \<open>Runtime adapters\<close>









lemma import_os_source:
  "source (Rx [Lit ''import'', Plus Space, Lit ''os'', NotAhead WordCh])
   = ''import'' @ bs @ ''s+os(?!'' @ bs @ ''w)''"
  by (simp add: escape_lit_def bs_def)







subsection \<open>Output of an exec\<close>

lemma demux_lengths:
  "length (fst (demux cs acc)) =
     length (fst acc) + sum_list (map (\<lambda>c. case c of StdoutChunk s \<Rightarrow> length s | StderrChunk s \<Rightarrow> 0) cs) \<and>
   length (snd (demux cs acc)) =
     length (snd acc) + sum_list (map (\<lambda>c. case c of StdoutChunk s \<Rightarrow> 0 | StderrChunk s \<Rightarrow> length s) cs)"
  by (induction cs acc rule: demux.induct) auto

text \<open>
  C3: the claim bounds the returned stdout by 10 MiB plus the length of the truncation
  marker. \<open>MAX_STDOUT_SIZE\<close>, \<open>MAX_STDERR_SIZE\<close> and \<open>TRUNCATION_MESSAGE\<close> are declared in
  \<open>Container.ts\<close> as output size limits, but \<open>executeWithTimeout\<close> appends every chunk and
  never reads them: an exec whose stdout is one chunk of 10 MiB + 52 characters returns
  all of it.
\<close>

theorem C3_stdout_not_capped:
  "container_exec None
     [StdoutChunk (replicate (MAX_STDOUT_SIZE + length TRUNCATION_MESSAGE + 1) CHR ''a'')]
     StreamEnd (Inr (Some 0))
   = Inr \<lparr>stdout = replicate (MAX_STDOUT_SIZE + length TRUNCATION_MESSAGE + 1) CHR ''a'',
          stderr = [], exitCode = 0\<rparr> \<and>
   length (replicate (MAX_STDOUT_SIZE + length TRUNCATION_MESSAGE + 1) CHR ''a'')
     > MAX_STDOUT_SIZE + length TRUNCATION_MESSAGE \<and>
   MAX_STDOUT_SIZE = 10485760 \<and> length TRUNCATION_MESSAGE = 51"
  by (simp add: container_exec_def executeWithTimeout_def MAX_STDOUT_SIZE_def TRUNCATION_MESSAGE_def)

subsection \<open>Sessions\<close>






lemma pause_succeeds:
  assumes "lookup m k = Some (i, s)" "engine_pause eng (s_container s) = None"
  shows "\<exists>m' calls s'. pause eng m now k = (Inr (), m', calls) \<and> lookup m' k = Some (i, s') \<and>
           s_state s' = paused \<and> s_container s' = s_container s"
proof -
  let ?s = "s\<lparr>s_lastUsedAt := now\<rparr>"
  let ?m = "m\<lparr>sessions := AList.update i ?s (sessions m)\<rparr>"
  have l1: "lookup ?m k = Some (i, ?s)" by (rule lookup_update [OF assms(1)])
  show ?thesis
  proof (cases "s_state s = paused")
    case True
    then have "pause eng m now k = (Inr (), ?m, [])"
      using assms by (simp add: pause_def get_found)
    with l1 True show ?thesis by auto
  next
    case False
    then have "pause eng m now k =
        (Inr (), ?m\<lparr>sessions := AList.update i (?s\<lparr>s_state := paused\<rparr>) (sessions ?m)\<rparr>,
         [Pause (s_container s)])"
      using assms by (simp add: pause_def get_found container_pause_def)
    with lookup_update [OF l1, of "?s\<lparr>s_state := paused\<rparr>"] show ?thesis by auto
  qed
qed

lemma resume_succeeds:
  assumes "lookup m k = Some (i, s)" "s_state s = paused" "engine_unpause eng (s_container s) = None"
  shows "\<exists>m' calls. resume eng m now k = (Inr (), m', calls) \<and> session_state m' k = Some active"
proof -
  let ?s = "s\<lparr>s_lastUsedAt := now\<rparr>"
  let ?m = "m\<lparr>sessions := AList.update i ?s (sessions m)\<rparr>"
  have l1: "lookup ?m k = Some (i, ?s)" by (rule lookup_update [OF assms(1)])
  have "resume eng m now k =
        (Inr (), ?m\<lparr>sessions := AList.update i (?s\<lparr>s_state := active, s_lastUsedAt := now\<rparr>) (sessions ?m)\<rparr>,
         [Unpause (s_container s)])"
    using assms by (simp add: resume_def get_found container_unpause_def)
  with lookup_update [OF l1, of "?s\<lparr>s_state := active, s_lastUsedAt := now\<rparr>"] show ?thesis
    by (auto simp: session_state_def)
qed

text \<open>
  C8: for a session found under \<open>k\<close> (its id or its name): when \<open>pause\<close> and then \<open>resume\<close>
  return, the state is \<open>active\<close>, and they do return when the engine's pause and unpause
  succeed; \<open>pause\<close> of a paused session returns with the state still \<open>paused\<close> and no call
  to the engine; \<open>resume\<close> of a session that is not paused returns with the state
  unchanged and no call to the engine. (Both refresh \<open>lastUsedAt\<close> through \<open>get\<close>.)
\<close>

theorem C8_pause_resume:
  assumes "lookup m k = Some (i, s)"
  shows "(pause eng m t1 k = (Inr (), m1, calls1) \<and> resume eng m1 t2 k = (Inr (), m2, calls2)
            \<longrightarrow> session_state m2 k = Some active) \<and>
         (engine_pause eng (s_container s) = None \<and> engine_unpause eng (s_container s) = None
            \<longrightarrow> (\<exists>ma mb ca cb. pause eng m t1 k = (Inr (), ma, ca) \<and>
                   resume eng ma t2 k = (Inr (), mb, cb) \<and> session_state mb k = Some active)) \<and>
         (s_state s = paused
            \<longrightarrow> (\<exists>m'. pause eng m t1 k = (Inr (), m', []) \<and> session_state m' k = Some paused)) \<and>
         (s_state s \<noteq> paused
            \<longrightarrow> (\<exists>m'. resume eng m t1 k = (Inr (), m', []) \<and> session_state m' k = Some (s_state s)))"
proof -
  have p1: "pause eng m t1 k = (Inr (), m1, calls1) \<and> resume eng m1 t2 k = (Inr (), m2, calls2)
            \<longrightarrow> session_state m2 k = Some active"
  proof (intro impI, elim conjE)
    assume a: "pause eng m t1 k = (Inr (), m1, calls1)" and b: "resume eng m1 t2 k = (Inr (), m2, calls2)"
    from pause_ok_state [OF assms a] obtain s1 where
      s1: "lookup m1 k = Some (i, s1)" "s_state s1 = paused" by blast
    from resume_ok_state [OF s1(1) b s1(2)] show "session_state m2 k = Some active" .
  qed
  have p2: "engine_pause eng (s_container s) = None \<and> engine_unpause eng (s_container s) = None
            \<longrightarrow> (\<exists>ma mb ca cb. pause eng m t1 k = (Inr (), ma, ca) \<and>
                   resume eng ma t2 k = (Inr (), mb, cb) \<and> session_state mb k = Some active)"
  proof (intro impI, elim conjE)
    assume ep: "engine_pause eng (s_container s) = None"
       and eu: "engine_unpause eng (s_container s) = None"
    from pause_succeeds [OF assms ep, of t1] obtain ma ca s1 where
      a: "pause eng m t1 k = (Inr (), ma, ca)" and s1: "lookup ma k = Some (i, s1)"
      "s_state s1 = paused" "s_container s1 = s_container s"
      by blast
    from eu s1(3) have "engine_unpause eng (s_container s1) = None" by simp
    from resume_succeeds [OF s1(1) s1(2) this, of t2] a show
      "\<exists>ma mb ca cb. pause eng m t1 k = (Inr (), ma, ca) \<and>
                   resume eng ma t2 k = (Inr (), mb, cb) \<and> session_state mb k = Some active"
      by blast
  qed
  from p1 p2 pause_paused [OF assms, of eng t1] resume_not_paused [OF assms, of eng t1]
  show ?thesis by blast
qed

theorem C8_pause_resume_witness:
  "lookup demo_manager ''work'' = Some (''s-1'', demo_session) \<and>
   (\<exists>ma mb ca cb. pause engine_ok demo_manager 2000 ''work'' = (Inr (), ma, ca) \<and>
        resume engine_ok ma 3000 ''work'' = (Inr (), mb, cb) \<and>
        session_state mb ''work'' = Some active) \<and>
   (\<exists>m'. resume engine_ok demo_manager 2000 ''work'' = (Inr (), m', []) \<and>
        session_state m' ''work'' = Some active)"
proof -
  have l: "lookup demo_manager ''work'' = Some (''s-1'', demo_session)"
    by (simp add: lookup_def demo_manager_def)
  have e: "engine_pause engine_ok (s_container demo_session) = None \<and>
           engine_unpause engine_ok (s_container demo_session) = None"
    by (simp add: engine_ok_def)
  have st: "s_state demo_session \<noteq> paused" "s_state demo_session = active"
    by (simp_all add: demo_session_def)
  from C8_pause_resume [OF l, of engine_ok 2000 _ _ 3000 _ _] l e st show ?thesis
    by metis
qed

subsection \<open>Package cache\<close>









subsection \<open>Container pool\<close>




lemma release_at_cap_stop_fails:
  assumes "maxActive config \<le> length p" "oldest_of None (map snd p) = Some v"
    "container_stop eng (container v) = Some e" "engine_exec eng cid mkdir_workspace = None"
  shows "release eng config now p cid lang =
           (AList.update cid (fresh_entry cid lang now) p,
            [Stop (container v), ExecIn cid rm_workspace, ExecIn cid mkdir_workspace])"
  using assms
  by (simp add: release_def evictOldest_def destroyContainer_def cleanContainer_def fresh_entry_def)



subsection \<open>Audit severity\<close>

text \<open>
  C7, as stated: an event logged without an explicit severity gets \<open>INFO\<close> whenever its
  type is none of the five named ones. The source tests \<open>success === false\<close> before it
  falls back to \<open>INFO\<close>: the \<open>EXECUTE_END\<close> event that \<open>logExecuteEnd\<close> writes for exit code
  1 carries no explicit severity and is an \<open>ERROR\<close>, so the claim as stated is false.
\<close>

theorem C7_info_counterexample:
  "eventType (logExecuteEnd ''t'' ''evt_1'' python ''abc'' 5 1 None None) = EXECUTE_END \<and>
   severity (logExecuteEnd ''t'' ''evt_1'' python ''abc'' 5 1 None None) = ERROR \<and>
   severity (logExecuteEnd ''t'' ''evt_1'' python ''abc'' 5 1 None None) \<noteq> INFO"
  by (simp add: logExecuteEnd_def log_event_def inferSeverity_def no_options_def)

text \<open>
  C7, amended: without an explicit severity, \<open>SECURITY_VIOLATION\<close> is \<open>CRITICAL\<close>, the two
  blocked types are \<open>WARN\<close>, \<open>EXECUTE_ERROR\<close> and \<open>EXECUTE_TIMEOUT\<close> are \<open>ERROR\<close>, and every
  other type is \<open>ERROR\<close> when the event was logged with \<open>success: false\<close> and \<open>INFO\<close>
  otherwise.
\<close>

theorem C7_inferred_severity:
  "opt_severity opts = None \<Longrightarrow>
   severity (log_event ts eid et det opts) =
     (if et = SECURITY_VIOLATION then CRITICAL
      else if et \<in> {EXECUTE_BLOCKED, PACKAGE_INSTALL_BLOCKED} then WARN
      else if et \<in> {EXECUTE_ERROR, EXECUTE_TIMEOUT} then ERROR
      else if opt_success opts = Some False then ERROR
      else INFO)"
  by (simp add: log_event_def inferSeverity_def)

theorem C7_inferred_severity_witness:
  "severity (logExecuteEnd ''t'' ''evt_1'' python ''abc'' 5 1 None None) = ERROR \<and>
   severity (logExecuteEnd ''t'' ''evt_2'' python ''abc'' 5 0 None None) = INFO \<and>
   severity (log_event ''t'' ''evt_3'' SECURITY_VIOLATION [] no_options) = CRITICAL"
  using C7_inferred_severity [of "no_options\<lparr>opt_language := Some python, opt_sessionId := None,
            opt_containerId := None, opt_duration := Some 5, opt_success := Some False\<rparr>"
          "''t''" "''evt_1''" EXECUTE_END "[(''codeHash'', DStr ''abc''), (''exitCode'', DNum 1)]"]
        C7_inferred_severity [of "no_options\<lparr>opt_language := Some python, opt_sessionId := None,
            opt_containerId := None, opt_duration := Some 5, opt_success := Some True\<rparr>"
          "''t''" "''evt_2''" EXECUTE_END "[(''codeHash'', DStr ''abc''), (''exitCode'', DNum 0)]"]
        C7_inferred_severity [of no_options "''t''" "''evt_3''" SECURITY_VIOLATION "[]"]
  by (simp add: logExecuteEnd_def no_options_def)

end
